theory Spec2Isabelle
  imports Main
begin

section \<open>JavaScript values\<close>

text \<open>
  The library in \<^verbatim>\<open>src/lib/fuffr.js\<close> receives arbitrary JavaScript values from the
  page. The values that can reach its code are modelled by two datatypes: the
  primitives, and the values proper. A value is a primitive, an object or a
  function. An object \<open>JObj ps\<close> is an ordinary object whose prototype is
  \<^verbatim>\<open>Object.prototype\<close> and whose own properties are the data properties \<open>ps\<close>,
  each holding a primitive (what \<^verbatim>\<open>JSON.parse\<close> builds from an object of
  primitives). A function \<open>JFun src\<close> is a function whose string conversion
  yields \<open>src\<close>. Numbers are integer-valued; non-integral numbers and NaN are
  not part of the model.

  JavaScript numbers are doubles. An integer of magnitude below \<open>2 ^ 53\<close> is a
  double, \<^verbatim>\<open>++\<close> is exact on it and its string conversion is its decimal numeral;
  these are the safe integers. Statements about arbitrary values assume them
  safe: their numbers are safe integers, and an object has no key \<^verbatim>\<open>__proto__\<close>,
  which in an object literal sets the prototype instead of a property.
\<close>

datatype js_prim = JUndefined | JNull | JBool bool | JNum int | JStr string

datatype js_val = Prim js_prim | JObj "(string \<times> js_prim) list" | JFun string

datatype js_error = TypeError

definition safe_integer :: "int \<Rightarrow> bool" where
  "safe_integer i \<longleftrightarrow> - (2 ^ 53) < i \<and> i < 2 ^ 53"

fun safe_prim :: "js_prim \<Rightarrow> bool" where
  "safe_prim (JNum n) = safe_integer n"
| "safe_prim JUndefined = True"
| "safe_prim JNull = True"
| "safe_prim (JBool b) = True"
| "safe_prim (JStr t) = True"

fun safe_value :: "js_val \<Rightarrow> bool" where
  "safe_value (Prim p) = safe_prim p"
| "safe_value (JObj ps) =
     (list_all (\<lambda>kv. safe_prim (snd kv)) ps \<and> ''__proto__'' \<notin> set (map fst ps))"
| "safe_value (JFun src) = True"

abbreviation undefined_val :: js_val where
  "undefined_val \<equiv> Prim JUndefined"

abbreviation null_val :: js_val where
  "null_val \<equiv> Prim JNull"

abbreviation num_val :: "int \<Rightarrow> js_val" where
  "num_val n \<equiv> Prim (JNum n)"

abbreviation str_val :: "string \<Rightarrow> js_val" where
  "str_val t \<equiv> Prim (JStr t)"

subsection \<open>Conversion to string, as performed by \<^verbatim>\<open>'text' + value\<close>\<close>

definition digit_char :: "nat \<Rightarrow> char" where
  "digit_char d = ''0123456789'' ! d"

fun nat_to_string :: "nat \<Rightarrow> string" where
  "nat_to_string n =
     (if n < 10 then [digit_char n]
      else nat_to_string (n div 10) @ [digit_char (n mod 10)])"

declare nat_to_string.simps [simp del]

text \<open>The decimal numeral of an integer, with a minus sign when it is negative.\<close>

definition decimal :: "int \<Rightarrow> string" where
  "decimal i = (if i < 0 then CHR ''-'' # nat_to_string (nat (- i)) else nat_to_string (nat i))"

text \<open>
  The conversion of a number to a string (\<^verbatim>\<open>Number::toString\<close> of ECMAScript) on an
  integer: up to 21 digits the digits themselves, beyond that the exponent
  notation, which writes the digits without their trailing zeros, a point after
  the first of them when there are several, and the exponent. The digits
  JavaScript prints are the shortest that determine the double; they are the
  digits of the integer when the integer is safe, and when it is a double with
  at most 15 digits before its trailing zeros (as \<open>10 ^ 21\<close> is). For other
  integers the digits differ, and the definition below is not the conversion.
\<close>

definition exponent_form :: "string \<Rightarrow> string" where
  "exponent_form digits =
     (let mantissa = rev (dropWhile (\<lambda>c. c = CHR ''0'') (rev digits))
      in (case mantissa of
            [] \<Rightarrow> []
          | d # ds \<Rightarrow> (if ds = [] then [d] else d # CHR ''.'' # ds))
         @ ''e+'' @ nat_to_string (length digits - 1))"

definition number_to_string :: "int \<Rightarrow> string" where
  "number_to_string i =
     (let digits = nat_to_string (nat \<bar>i\<bar>);
          body = (if length digits \<le> 21 then digits else exponent_form digits)
      in if i < 0 then CHR ''-'' # body else body)"

fun prim_to_string :: "js_prim \<Rightarrow> string" where
  "prim_to_string JUndefined = ''undefined''"
| "prim_to_string JNull = ''null''"
| "prim_to_string (JBool b) = (if b then ''true'' else ''false'')"
| "prim_to_string (JNum n) = number_to_string n"
| "prim_to_string (JStr t) = t"

text \<open>
  The conversion of a value, which can raise. For an object the conversion calls
  \<^verbatim>\<open>valueOf\<close> and then \<^verbatim>\<open>toString\<close> when they are callable. An own property holds
  a primitive, which cannot be called, and the inherited \<^verbatim>\<open>valueOf\<close> returns the
  object itself: so the result is that of the inherited \<^verbatim>\<open>toString\<close>,
  \<^verbatim>\<open>[object Object]\<close>, unless an own property \<^verbatim>\<open>toString\<close> hides it, and then no
  method is left and the conversion raises a \<^verbatim>\<open>TypeError\<close>.
\<close>

fun to_string :: "js_val \<Rightarrow> js_error + string" where
  "to_string (Prim p) = Inr (prim_to_string p)"
| "to_string (JObj ps) =
     (if ''toString'' \<in> set (map fst ps) then Inl TypeError else Inr ''[object Object]'')"
| "to_string (JFun src) = Inr src"

subsection \<open>Truthiness, \<^verbatim>\<open>typeof\<close>, property and argument access\<close>

fun prim_truthy :: "js_prim \<Rightarrow> bool" where
  "prim_truthy JUndefined = False"
| "prim_truthy JNull = False"
| "prim_truthy (JBool b) = b"
| "prim_truthy (JNum n) = (n \<noteq> 0)"
| "prim_truthy (JStr t) = (t \<noteq> [])"

fun truthy :: "js_val \<Rightarrow> bool" where
  "truthy (Prim p) = prim_truthy p"
| "truthy (JObj ps) = True"
| "truthy (JFun src) = True"

fun js_typeof :: "js_val \<Rightarrow> string" where
  "js_typeof (Prim JUndefined) = ''undefined''"
| "js_typeof (Prim JNull) = ''object''"
| "js_typeof (Prim (JBool b)) = ''boolean''"
| "js_typeof (Prim (JNum n)) = ''number''"
| "js_typeof (Prim (JStr t)) = ''string''"
| "js_typeof (JObj ps) = ''object''"
| "js_typeof (JFun src) = ''function''"

text \<open>
  \<^verbatim>\<open>value.name\<close>: a property an object does not have reads as \<^verbatim>\<open>undefined\<close>, and so
  does any of the four parameter names on a primitive or on a function. The
  library reads properties only of a truthy \<^verbatim>\<open>params\<close>, which is never \<^verbatim>\<open>null\<close> or
  \<^verbatim>\<open>undefined\<close>, so the read cannot raise.
\<close>

fun get_prop :: "js_val \<Rightarrow> string \<Rightarrow> js_prim" where
  "get_prop (JObj ps) k = (case map_of ps k of Some v \<Rightarrow> v | None \<Rightarrow> JUndefined)"
| "get_prop (Prim p) k = JUndefined"
| "get_prop (JFun src) k = JUndefined"

text \<open>\<^verbatim>\<open>arguments[i]\<close>: \<^verbatim>\<open>undefined\<close> beyond the arguments that were passed.\<close>

definition arg_at :: "js_val list \<Rightarrow> nat \<Rightarrow> js_val" where
  "arg_at args i = (if i < length args then args ! i else undefined_val)"

section \<open>The constants of the library\<close>

definition FFRSideTop :: int where "FFRSideTop = 1"
definition FFRSideBottom :: int where "FFRSideBottom = 2"
definition FFRSideLeft :: int where "FFRSideLeft = 4"
definition FFRSideRight :: int where "FFRSideRight = 8"

definition FFRGesturePan :: int where "FFRGesturePan = 1"
definition FFRGesturePinch :: int where "FFRGesturePinch = 2"
definition FFRGestureRotate :: int where "FFRGestureRotate = 3"
definition FFRGestureTap :: int where "FFRGestureTap = 4"
definition FFRGestureDoubleTap :: int where "FFRGestureDoubleTap = 5"
definition FFRGestureLongPress :: int where "FFRGestureLongPress = 6"
definition FFRGestureSwipeLeft :: int where "FFRGestureSwipeLeft = 7"
definition FFRGestureSwipeRight :: int where "FFRGestureSwipeRight = 8"
definition FFRGestureSwipeUp :: int where "FFRGestureSwipeUp = 9"
definition FFRGestureSwipeDown :: int where "FFRGestureSwipeDown = 10"

section \<open>State and effects\<close>

text \<open>
  The closure of the library holds two variables, \<^verbatim>\<open>callbackIdCounter\<close> and
  \<^verbatim>\<open>callbackTable\<close>. The table is a JavaScript object indexed by the identifiers
  the counter issues; the property key of an integer is its decimal string,
  which determines the integer, so the table is a map from integers.

  What the library does to its environment is recorded, in order, in a third
  component: each request handed to the bridge (its URL and the two callbacks
  the response handler closes over) and each call of a function supplied by the
  page (its text and the arguments passed).
\<close>

datatype effect =
    Sent string js_val js_val
  | Called string "js_val list"

record fuffr_state =
  callbackIdCounter :: int
  callbackTable :: "int \<rightharpoonup> js_val"
  effects :: "effect list"

definition init_state :: fuffr_state where
  "init_state = \<lparr>callbackIdCounter = 0, callbackTable = Map.empty, effects = []\<rparr>"

text \<open>Calling a value: a function is called, anything else raises.\<close>

definition call_value :: "js_val \<Rightarrow> js_val list \<Rightarrow> fuffr_state \<Rightarrow> js_error + fuffr_state" where
  "call_value f args s =
     (case f of
        JFun src \<Rightarrow> Inr (s\<lparr>effects := effects s @ [Called src args]\<rparr>)
      | Prim p \<Rightarrow> Inl TypeError
      | JObj ps \<Rightarrow> Inl TypeError)"

section \<open>The bridge: \<^verbatim>\<open>fuffr.internal.callNative\<close>\<close>

definition callNative :: "string \<Rightarrow> js_val \<Rightarrow> js_val \<Rightarrow> fuffr_state \<Rightarrow> fuffr_state" where
  "callNative command win fail s =
     s\<lparr>effects := effects s @ [Sent (''fuffr-bridge@'' @ command) win fail]\<rparr>"

text \<open>
  The fields of the request that the handler installed by \<^verbatim>\<open>callNative\<close> reads,
  and the handler itself: \<^verbatim>\<open>win && win(request.responseText)\<close> calls \<^verbatim>\<open>win\<close> only when
  it is truthy.
\<close>

record xhr =
  readyState :: int
  status :: int
  responseText :: string

definition onreadystatechange ::
  "xhr \<Rightarrow> js_val \<Rightarrow> js_val \<Rightarrow> fuffr_state \<Rightarrow> js_error + fuffr_state" where
  "onreadystatechange request win fail s =
     (if readyState request = 4 then
        (if status request = 200 then
           (if truthy win then call_value win [str_val (responseText request)] s else Inr s)
         else
           (if truthy fail then call_value fail [num_val (status request)] s else Inr s))
      else Inr s)"

section \<open>The public functions\<close>

text \<open>
  A function that builds its command by \<^verbatim>\<open>'text' + value\<close> raises when the
  conversion of the value raises, before anything is sent.
\<close>

definition enableSides ::
  "js_val \<Rightarrow> js_val \<Rightarrow> js_val \<Rightarrow> js_val \<Rightarrow> fuffr_state \<Rightarrow> js_error + fuffr_state" where
  "enableSides sides touchesPerSide win fail s =
     (case to_string sides of
        Inl e \<Rightarrow> Inl e
      | Inr a \<Rightarrow>
          (case to_string touchesPerSide of
             Inl e \<Rightarrow> Inl e
           | Inr b \<Rightarrow>
               Inr (callNative (''enableSides@'' @ a @ ''@'' @ b @ ''@'') win fail s)))"

definition log :: "js_val \<Rightarrow> js_val \<Rightarrow> js_val \<Rightarrow> fuffr_state \<Rightarrow> js_error + fuffr_state" where
  "log message win fail s =
     (case to_string message of
        Inl e \<Rightarrow> Inl e
      | Inr a \<Rightarrow> Inr (callNative (''consoleLog@'' @ a @ ''@'') win fail s))"

definition updateFirmware :: "js_val \<Rightarrow> js_val \<Rightarrow> fuffr_state \<Rightarrow> fuffr_state" where
  "updateFirmware win fail s = callNative ''updateFirmware@'' win fail s"

text \<open>
  The block of \<^verbatim>\<open>addGesture\<close> that appends the gesture parameters to the message
  (\<^verbatim>\<open>if (params) { ... }\<close>), with the labels as the source spells them.
\<close>

definition addParams :: "js_val \<Rightarrow> string \<Rightarrow> string" where
  "addParams params message =
     (if truthy params then
        (let message =
               (if prim_truthy (get_prop params ''maximumDuration'') then
                  message @ ''maximumDistance@''
                    @ prim_to_string (get_prop params ''maximumDuration'') @ ''@''
                else if prim_truthy (get_prop params ''minimumDuration'') then
                  message @ ''minumumDistance@''
                    @ prim_to_string (get_prop params ''minimumDuration'') @ ''@''
                else message)
         in
           (if prim_truthy (get_prop params ''maximumDistance'') then
              message @ ''maximumDistance@''
                @ prim_to_string (get_prop params ''maximumDistance'') @ ''@''
            else if prim_truthy (get_prop params ''minimumDistance'') then
              message @ ''minumumDistance@''
                @ prim_to_string (get_prop params ''minimumDistance'') @ ''@''
            else message))
      else message)"

text \<open>
  \<^verbatim>\<open>fuffr.addGesture\<close> takes its arguments from \<^verbatim>\<open>arguments\<close>. The result is the value
  returned (\<^verbatim>\<open>undefined\<close> for the bare \<^verbatim>\<open>return\<close>) or the exception raised, and the
  state the call leaves. The basic message is built after the counter has been
  advanced and the callback stored: when the conversion of the gesture type or
  of the sides raises, the call ends there, with the identifier consumed, the
  callback in the table and nothing sent.
\<close>

definition addGesture ::
  "js_val list \<Rightarrow> fuffr_state \<Rightarrow> (js_error + js_val) \<times> fuffr_state" where
  "addGesture args s =
     (let gestureType = arg_at args 0;
          sides = arg_at args 1;
          params = (if length args = 4 then arg_at args 2 else null_val);
          callback =
            (if length args = 4 then arg_at args 3
             else if length args = 3 then arg_at args 2
             else null_val)
      in
        if \<not> truthy callback \<and> js_typeof callback \<noteq> ''function'' then (Inr undefined_val, s)
        else
          (let gestureId = callbackIdCounter s + 1;
               s1 = s\<lparr>callbackIdCounter := gestureId,
                       callbackTable := (callbackTable s)(gestureId \<mapsto> callback)\<rparr>
           in
             (case to_string gestureType of
                Inl e \<Rightarrow> (Inl e, s1)
              | Inr t \<Rightarrow>
                  (case to_string sides of
                     Inl e \<Rightarrow> (Inl e, s1)
                   | Inr u \<Rightarrow>
                       (let message = ''addGesture@'' @ t @ ''@'' @ u @ ''@''
                                        @ number_to_string gestureId @ ''@'';
                            message = addParams params message
                        in (Inr (num_val gestureId),
                            callNative message undefined_val undefined_val s1))))))"

definition removeCallback :: "int \<Rightarrow> fuffr_state \<Rightarrow> fuffr_state" where
  "removeCallback gestureId s = s\<lparr>callbackTable := (callbackTable s)(gestureId := None)\<rparr>"

definition removeGesture :: "int \<Rightarrow> fuffr_state \<Rightarrow> fuffr_state" where
  "removeGesture gestureId s =
     callNative (''removeGesture@'' @ number_to_string gestureId @ ''@'')
       undefined_val undefined_val (removeCallback gestureId s)"

text \<open>
  The two statements of \<^verbatim>\<open>removeGesture\<close> one after the other: the states the
  function passes through, the first after \<^verbatim>\<open>removeCallback\<close> and the second, in
  which it returns, after \<^verbatim>\<open>callNative\<close>.
\<close>

definition removeGesture_steps :: "int \<Rightarrow> fuffr_state \<Rightarrow> fuffr_state list" where
  "removeGesture_steps gestureId s =
     (let s1 = removeCallback gestureId s;
          s2 = callNative (''removeGesture@'' @ number_to_string gestureId @ ''@'')
                 undefined_val undefined_val s1
      in [s1, s2])"

definition removeAllGestures :: "fuffr_state \<Rightarrow> fuffr_state" where
  "removeAllGestures s = callNative ''removeAllGestures@'' undefined_val undefined_val s"

definition addCallback :: "js_val \<Rightarrow> fuffr_state \<Rightarrow> int \<times> fuffr_state" where
  "addCallback callbackFun s =
     (let callbackId = callbackIdCounter s + 1
      in (callbackId,
          s\<lparr>callbackIdCounter := callbackId,
            callbackTable := (callbackTable s)(callbackId \<mapsto> callbackFun)\<rparr>))"

text \<open>
  \<^verbatim>\<open>fuffr.internal.performCallback(gestureId, ...)\<close>: \<open>rest\<close> are the arguments after
  the identifier. A property the table does not have reads as \<^verbatim>\<open>undefined\<close>. On a
  truthy entry the code copies \<^verbatim>\<open>arguments\<close>, drops its first element and calls
  \<^verbatim>\<open>callbackFun.apply(null, args)\<close>, which calls a function and raises on an entry
  that is no function (a primitive or a data object has no callable \<^verbatim>\<open>apply\<close>).
\<close>

definition performCallback ::
  "int \<Rightarrow> js_val list \<Rightarrow> fuffr_state \<Rightarrow> js_error + fuffr_state" where
  "performCallback gestureId rest s =
     (let callbackFun =
            (case callbackTable s gestureId of Some v \<Rightarrow> v | None \<Rightarrow> undefined_val)
      in
        if truthy callbackFun then
          (let args = num_val gestureId # rest;
               args = tl args
           in call_value callbackFun args s)
        else Inr s)"

section \<open>Sequences of calls\<close>

text \<open>
  The page and the native host call the functions of the library one after the
  other. A call is one of the following; \<open>exec\<close> runs it and returns the
  identifier the call returned to its caller, if any, and the state the call
  leaves. A call that raises returns nothing to its caller; the state is what
  the call had done before it raised.
\<close>

datatype api_call =
    EnableSides js_val js_val js_val js_val
  | Log js_val js_val js_val
  | UpdateFirmware js_val js_val
  | AddGesture "js_val list"
  | RemoveGesture int
  | RemoveAllGestures
  | AddCallback js_val
  | RemoveCallback int
  | PerformCallback int "js_val list"
  | CallNative string js_val js_val

fun exec :: "api_call \<Rightarrow> fuffr_state \<Rightarrow> int option \<times> fuffr_state" where
  "exec (EnableSides sides n win fail) s =
     (case enableSides sides n win fail s of Inr s' \<Rightarrow> (None, s') | Inl e \<Rightarrow> (None, s))"
| "exec (Log message win fail) s =
     (case log message win fail s of Inr s' \<Rightarrow> (None, s') | Inl e \<Rightarrow> (None, s))"
| "exec (UpdateFirmware win fail) s = (None, updateFirmware win fail s)"
| "exec (AddGesture args) s =
     (case addGesture args s of
        (Inr (Prim (JNum i)), s') \<Rightarrow> (Some i, s')
      | (r, s') \<Rightarrow> (None, s'))"
| "exec (RemoveGesture i) s = (None, removeGesture i s)"
| "exec RemoveAllGestures s = (None, removeAllGestures s)"
| "exec (AddCallback f) s = (case addCallback f s of (i, s') \<Rightarrow> (Some i, s'))"
| "exec (RemoveCallback i) s = (None, removeCallback i s)"
| "exec (PerformCallback i rest) s =
     (case performCallback i rest s of Inr s' \<Rightarrow> (None, s') | Inl e \<Rightarrow> (None, s))"
| "exec (CallNative command win fail) s = (None, callNative command win fail s)"

fun run :: "api_call list \<Rightarrow> fuffr_state \<Rightarrow> int list \<times> fuffr_state" where
  "run [] s = ([], s)"
| "run (c # cs) s =
     (case exec c s of (r, s') \<Rightarrow>
        (case run cs s' of (ids, s'') \<Rightarrow>
           ((case r of Some i \<Rightarrow> i # ids | None \<Rightarrow> ids), s'')))"

text \<open>
  The calls that raise after they have changed the registry: \<^verbatim>\<open>addGesture\<close> when
  the conversion of its gesture type or sides raises. Whether it raises depends
  on the arguments only, so the fresh registry serves as the state here.
\<close>

definition raises_after_registering :: "api_call \<Rightarrow> bool" where
  "raises_after_registering c =
     (case c of
        AddGesture args \<Rightarrow> isl (fst (addGesture args init_state))
      | _ \<Rightarrow> False)"

section \<open>The parameter encoding as the specification words it\<close>

text \<open>
  The specification describes the gesture parameters by classes: the duration
  class is encoded first, the distance class second, and in each class the
  maximum is taken when it is present, otherwise the minimum when that is
  present, otherwise nothing. The following definitions follow these words;
  they are independent of \<open>addParams\<close> and take the notion of presence as a
  parameter. A class is written with the labels of the wire format, which are
  the same for both classes.
\<close>

fun has_key :: "js_val \<Rightarrow> string \<Rightarrow> bool" where
  "has_key (JObj ps) k = (k \<in> set (map fst ps))"
| "has_key (Prim p) k = False"
| "has_key (JFun src) k = False"

definition has_value :: "js_val \<Rightarrow> string \<Rightarrow> bool" where
  "has_value params k = prim_truthy (get_prop params k)"

definition spec_class_field ::
  "(js_val \<Rightarrow> string \<Rightarrow> bool) \<Rightarrow> js_val \<Rightarrow> string \<Rightarrow> string \<Rightarrow> string" where
  "spec_class_field present params maximum minimum =
     (if present params maximum then
        ''maximumDistance@'' @ prim_to_string (get_prop params maximum) @ ''@''
      else if present params minimum then
        ''minumumDistance@'' @ prim_to_string (get_prop params minimum) @ ''@''
      else [])"

definition spec_param_fields :: "(js_val \<Rightarrow> string \<Rightarrow> bool) \<Rightarrow> js_val \<Rightarrow> string" where
  "spec_param_fields present params =
     spec_class_field present params ''maximumDuration'' ''minimumDuration''
       @ spec_class_field present params ''maximumDistance'' ''minimumDistance''"

section \<open>The command of \<^verbatim>\<open>enableSides\<close> as the specification words it\<close>

text \<open>
  The wire format of the specification is \<^verbatim>\<open>enableSides@<sidesBitmask>@<touchesPerSide>@\<close>,
  for every mask from 0 to 15 and every number of touches from 0 on: the two
  integers as decimal numerals.
\<close>

definition spec_enableSides_command :: "int \<Rightarrow> int \<Rightarrow> string" where
  "spec_enableSides_command sides touchesPerSide =
     ''enableSides@'' @ decimal sides @ ''@'' @ decimal touchesPerSide @ ''@''"

section \<open>Reading a decimal numeral\<close>

text \<open>
  The value of a string of decimal digits, and of such a string with an optional
  minus sign before it: what the digits in a command mean.
\<close>

definition digit_value :: "char \<Rightarrow> nat" where
  "digit_value c = of_char c - 48"

definition decimal_value :: "string \<Rightarrow> nat" where
  "decimal_value t = foldl (\<lambda>acc c. 10 * acc + digit_value c) 0 t"

definition signed_decimal_value :: "string \<Rightarrow> int" where
  "signed_decimal_value t =
     (case t of
        [] \<Rightarrow> 0
      | c # r \<Rightarrow> (if c = CHR ''-'' then - int (decimal_value r) else int (decimal_value t)))"

section \<open>An invariant of the registry\<close>

text \<open>Every identifier in the table has been issued: it is at most the counter.\<close>

definition issued_only :: "fuffr_state \<Rightarrow> bool" where
  "issued_only s = (\<forall>k v. callbackTable s k = Some v \<longrightarrow> k \<le> callbackIdCounter s)"

section \<open>Decimal numerals\<close>

lemma digit_value_digit_char: "d < 10 \<Longrightarrow> digit_value (digit_char d) = d"
proof -
  assume "d < 10"
  then have "d \<in> {0,1,2,3,4,5,6,7,8,9}" by auto
  then show ?thesis
    by (auto simp: digit_value_def digit_char_def)
qed

lemma decimal_value_snoc: "decimal_value (t @ [c]) = 10 * decimal_value t + digit_value c"
  by (simp add: decimal_value_def)

lemma decimal_value_nat_to_string: "decimal_value (nat_to_string n) = n"
proof (induction n rule: nat_to_string.induct)
  case (1 n)
  show ?case
  proof (cases "n < 10")
    case True
    then show ?thesis
      by (simp add: nat_to_string.simps [of n] decimal_value_def digit_value_digit_char)
  next
    case False
    with 1 have "decimal_value (nat_to_string (n div 10)) = n div 10" by simp
    with False show ?thesis
      by (simp add: nat_to_string.simps [of n] decimal_value_snoc digit_value_digit_char)
  qed
qed

lemma digit_char_is_digit: "d < 10 \<Longrightarrow> digit_char d \<in> set ''0123456789''"
proof -
  assume "d < 10"
  then have "d \<in> {0,1,2,3,4,5,6,7,8,9}" by auto
  then show ?thesis
    by (auto simp: digit_char_def)
qed

lemma nat_to_string_digits: "set (nat_to_string n) \<subseteq> set ''0123456789''"
proof (induction n rule: nat_to_string.induct)
  case (1 n)
  show ?case
  proof (cases "n < 10")
    case True
    then show ?thesis
      using digit_char_is_digit [of n] by (simp add: nat_to_string.simps [of n])
  next
    case False
    with 1 have "set (nat_to_string (n div 10)) \<subseteq> set ''0123456789''" by simp
    with False show ?thesis
      using digit_char_is_digit [of "n mod 10"] by (simp add: nat_to_string.simps [of n])
  qed
qed

lemma nat_to_string_no_delimiter: "CHR ''@'' \<notin> set (nat_to_string n)"
  using nat_to_string_digits [of n] by auto

lemma nat_to_string_not_empty: "nat_to_string n \<noteq> []"
  by (simp add: nat_to_string.simps [of n])

text \<open>
  The numeral of a number below \<open>10 ^ k\<close> has at most \<open>k\<close> digits. A safe integer has
  at most 16 digits, so its conversion is its decimal numeral, which reads back
  as the integer.
\<close>

lemma length_nat_to_string: "n < 10 ^ k \<Longrightarrow> 0 < k \<Longrightarrow> length (nat_to_string n) \<le> k"
proof (induction n arbitrary: k rule: nat_to_string.induct)
  case (1 n)
  show ?case
  proof (cases "n < 10")
    case True
    with "1.prems" show ?thesis
      by (simp add: nat_to_string.simps [of n] Suc_leI)
  next
    case False
    from "1.prems"(2) obtain j where k: "k = Suc j" by (cases k) auto
    from False "1.prems"(1) k have j: "0 < j" by (cases j) auto
    from "1.prems"(1) k have "n div 10 < 10 ^ j"
      by (simp add: less_mult_imp_div_less mult.commute)
    with "1.IH" [OF False _ j] have "length (nat_to_string (n div 10)) \<le> j" by simp
    with False k show ?thesis
      by (simp add: nat_to_string.simps [of n])
  qed
qed

lemma number_to_string_safe: "safe_integer i \<Longrightarrow> number_to_string i = decimal i"
proof -
  assume "safe_integer i"
  then have "nat \<bar>i\<bar> < 2 ^ 53" by (auto simp: safe_integer_def)
  also have "(2::nat) ^ 53 < 10 ^ 21" by simp
  finally have "length (nat_to_string (nat \<bar>i\<bar>)) \<le> 21"
    by (rule length_nat_to_string) simp
  then show ?thesis
    by (auto simp: number_to_string_def decimal_def Let_def)
qed

lemma signed_decimal_value_decimal: "signed_decimal_value (decimal i) = i"
proof (cases "i < 0")
  case True
  then show ?thesis
    by (simp add: decimal_def signed_decimal_value_def decimal_value_nat_to_string)
next
  case False
  obtain c r where cr: "nat_to_string (nat i) = c # r"
    using nat_to_string_not_empty [of "nat i"] by (cases "nat_to_string (nat i)") auto
  have "c \<in> set ''0123456789''"
    using nat_to_string_digits [of "nat i"] cr by auto
  then have "c \<noteq> CHR ''-''" by auto
  with False cr show ?thesis
    using decimal_value_nat_to_string [of "nat i"]
    by (simp add: decimal_def signed_decimal_value_def)
qed

lemma decimal_no_delimiter: "CHR ''@'' \<notin> set (decimal i)"
  by (simp add: decimal_def nat_to_string_no_delimiter)

section \<open>Evaluating the number conversion\<close>

lemmas num_eval = number_to_string_def decimal_def Let_def nat_to_string.simps digit_char_def

lemma decimal_strings:
  "number_to_string 0 = ''0''" "number_to_string 1 = ''1''" "number_to_string 2 = ''2''"
  "number_to_string 3 = ''3''" "number_to_string 4 = ''4''" "number_to_string 5 = ''5''"
  "number_to_string 7 = ''7''" "number_to_string 15 = ''15''" "number_to_string 404 = ''404''"
  by (simp_all add: num_eval)

text \<open>
  From \<open>10 ^ 21\<close> on the conversion is no decimal numeral: \<^verbatim>\<open>'' + 1e21\<close> is
  \<^verbatim>\<open>1e+21\<close>, while \<^verbatim>\<open>'' + 1e20\<close> still is the numeral of 21 digits.
\<close>

lemma exponent_strings:
  "number_to_string 1000000000000000000000 = ''1e+21''"
  "decimal 1000000000000000000000 = ''1000000000000000000000''"
  "decimal 15 = ''15''"
  "number_to_string 100000000000000000000 = ''100000000000000000000''"
  "number_to_string 1200000000000000000000 = ''1.2e+21''"
  "number_to_string (- 1000000000000000000000000) = ''-1e+24''"
  by (simp_all add: num_eval exponent_form_def)

section \<open>\<^verbatim>\<open>addGesture\<close>: the guard and the registration\<close>

text \<open>
  The guard of \<^verbatim>\<open>addGesture\<close> is \<^verbatim>\<open>!callback && typeof callback != 'function'\<close>. A
  falsy value is never a function, so the guard rejects exactly the falsy
  callbacks: a call with other than three or four arguments, and a call whose
  callback position holds a falsy value.
\<close>

lemma addGesture_rejects:
  "length args \<noteq> 3 \<Longrightarrow> length args \<noteq> 4 \<Longrightarrow> addGesture args s = (Inr undefined_val, s)"
  by (simp add: addGesture_def)

lemma typeof_function: "js_typeof v = ''function'' \<longleftrightarrow> (\<exists>src. v = JFun src)"
  by (cases v rule: js_typeof.cases) simp_all

lemma falsy_not_function: "\<not> truthy v \<Longrightarrow> js_typeof v \<noteq> ''function''"
  by (auto simp: typeof_function)

lemma addGesture_rejects_falsy3:
  "\<not> truthy callback \<Longrightarrow> addGesture [gestureType, sides, callback] s = (Inr undefined_val, s)"
  by (simp add: addGesture_def arg_at_def Let_def falsy_not_function)

lemma addGesture_rejects_falsy4:
  "\<not> truthy callback \<Longrightarrow>
   addGesture [gestureType, sides, params, callback] s = (Inr undefined_val, s)"
  by (simp add: addGesture_def arg_at_def Let_def falsy_not_function)

text \<open>
  C1 (the code departs from the claim). The claim: a call of \<^verbatim>\<open>addGesture\<close> whose
  callback position holds a value that is not a function returns nothing,
  registers nothing, leaves the counter and sends nothing. The code at
  \<^verbatim>\<open>fuffr.addGesture(fuffr.FFRGesturePan, fuffr.FFRSideTop, {maximumDuration: 2})\<close>,
  a call with parameters and no callback, on the fresh registry: the object is
  truthy, so the guard lets it pass although its \<^verbatim>\<open>typeof\<close> is not
  \<^verbatim>\<open>'function'\<close>; identifier 1 is issued and returned, the object is stored
  in the table as the handler, and the command \<^verbatim>\<open>addGesture@1@1@1@\<close> is sent. A
  later dispatch for identifier 1 raises, since the entry cannot be called.
\<close>

theorem addGesture_registers_noncallable:
  "addGesture [num_val FFRGesturePan, num_val FFRSideTop, JObj [(''maximumDuration'', JNum 2)]]
     init_state
   = (Inr (num_val 1),
      \<lparr>callbackIdCounter = 1,
       callbackTable = [1 \<mapsto> JObj [(''maximumDuration'', JNum 2)]],
       effects = [Sent ''fuffr-bridge@addGesture@1@1@1@'' undefined_val undefined_val]\<rparr>)
   \<and> js_typeof (JObj [(''maximumDuration'', JNum 2)]) \<noteq> ''function''
   \<and> performCallback 1 []
        \<lparr>callbackIdCounter = 1,
         callbackTable = [1 \<mapsto> JObj [(''maximumDuration'', JNum 2)]],
         effects = [Sent ''fuffr-bridge@addGesture@1@1@1@'' undefined_val undefined_val]\<rparr>
       = Inl TypeError"
  by (simp add: addGesture_def arg_at_def init_state_def callNative_def addParams_def
      FFRGesturePan_def FFRSideTop_def decimal_strings performCallback_def call_value_def)

text \<open>
  An accepted call whose gesture type and sides convert to strings: the
  registration, and the message with the parameters as \<open>addParams\<close> appends
  them, which are the fields of the specification when a field counts as present
  if its value is truthy.
\<close>

lemma addParams_spec: "truthy params \<Longrightarrow> addParams params m = m @ spec_param_fields has_value params"
  by (simp add: addParams_def spec_param_fields_def spec_class_field_def has_value_def Let_def)

lemma addGesture_accepts4:
  "truthy callback \<Longrightarrow> to_string gestureType = Inr t \<Longrightarrow> to_string sides = Inr u \<Longrightarrow>
   addGesture [gestureType, sides, params, callback] s =
     (Inr (num_val (callbackIdCounter s + 1)),
      s\<lparr>callbackIdCounter := callbackIdCounter s + 1,
        callbackTable := (callbackTable s)(callbackIdCounter s + 1 \<mapsto> callback),
        effects := effects s @
          [Sent (''fuffr-bridge@'' @
                 addParams params
                   (''addGesture@'' @ t @ ''@'' @ u @ ''@''
                      @ number_to_string (callbackIdCounter s + 1) @ ''@''))
             undefined_val undefined_val]\<rparr>)"
  by (simp add: addGesture_def arg_at_def callNative_def Let_def)

lemma addGesture_accepts3:
  "truthy callback \<Longrightarrow> to_string gestureType = Inr t \<Longrightarrow> to_string sides = Inr u \<Longrightarrow>
   addGesture [gestureType, sides, callback] s =
     (Inr (num_val (callbackIdCounter s + 1)),
      s\<lparr>callbackIdCounter := callbackIdCounter s + 1,
        callbackTable := (callbackTable s)(callbackIdCounter s + 1 \<mapsto> callback),
        effects := effects s @
          [Sent (''fuffr-bridge@'' @
                   (''addGesture@'' @ t @ ''@'' @ u @ ''@''
                      @ number_to_string (callbackIdCounter s + 1) @ ''@''))
             undefined_val undefined_val]\<rparr>)"
  by (simp add: addGesture_def arg_at_def callNative_def Let_def addParams_def)

text \<open>
  An accepted call whose gesture type or sides cannot be converted raises after
  the registration: the identifier is consumed and the callback is in the table,
  nothing is sent and nothing is returned.
\<close>

lemma one_error: "(x::js_error) = y"
  by (cases x; cases y) simp

lemma addGesture_raises3:
  "truthy callback \<Longrightarrow> to_string gestureType = Inl e \<or> to_string sides = Inl e \<Longrightarrow>
   addGesture [gestureType, sides, callback] s =
     (Inl TypeError,
      s\<lparr>callbackIdCounter := callbackIdCounter s + 1,
        callbackTable := (callbackTable s)(callbackIdCounter s + 1 \<mapsto> callback)\<rparr>)"
  by (auto simp: addGesture_def arg_at_def Let_def split: sum.splits intro: one_error)

lemma addGesture_raises4:
  "truthy callback \<Longrightarrow> to_string gestureType = Inl e \<or> to_string sides = Inl e \<Longrightarrow>
   addGesture [gestureType, sides, params, callback] s =
     (Inl TypeError,
      s\<lparr>callbackIdCounter := callbackIdCounter s + 1,
        callbackTable := (callbackTable s)(callbackIdCounter s + 1 \<mapsto> callback)\<rparr>)"
  by (auto simp: addGesture_def arg_at_def Let_def split: sum.splits intro: one_error)

section \<open>The gesture parameters\<close>

text \<open>
  The claim that within a class the maximum is encoded and the minimum dropped
  whenever both are present on the object fails when the maximum is present with
  the value 0: for \<^verbatim>\<open>{maximumDistance: 0, minimumDistance: 7}\<close> both keys are on
  the object, the code sends the minimum, \<^verbatim>\<open>minumumDistance@7@\<close>, and the
  encoding by presence of keys would be \<^verbatim>\<open>maximumDistance@0@\<close>.
\<close>

theorem key_presence_counterexample:
  "has_key (JObj [(''maximumDistance'', JNum 0), (''minimumDistance'', JNum 7)]) ''maximumDistance''
   \<and> has_key (JObj [(''maximumDistance'', JNum 0), (''minimumDistance'', JNum 7)]) ''minimumDistance''
   \<and> effects (snd (addGesture
         [num_val FFRGesturePan, num_val FFRSideTop,
          JObj [(''maximumDistance'', JNum 0), (''minimumDistance'', JNum 7)], JFun ''cb'']
         init_state))
       = [Sent ''fuffr-bridge@addGesture@1@1@1@minumumDistance@7@'' undefined_val undefined_val]
   \<and> effects (snd (addGesture
         [num_val FFRGesturePan, num_val FFRSideTop,
          JObj [(''maximumDistance'', JNum 0), (''minimumDistance'', JNum 7)], JFun ''cb'']
         init_state))
       \<noteq> [Sent (''fuffr-bridge@addGesture@1@1@1@'' @
                 spec_param_fields has_key
                   (JObj [(''maximumDistance'', JNum 0), (''minimumDistance'', JNum 7)]))
             undefined_val undefined_val]"
  by (simp add: addGesture_def arg_at_def init_state_def callNative_def addParams_def
      FFRGesturePan_def FFRSideTop_def decimal_strings spec_param_fields_def spec_class_field_def)

text \<open>
  C2 (amended). For every parameter object passed to \<^verbatim>\<open>addGesture\<close> with a callback
  that passes the guard, a gesture type and sides that convert to strings, all
  numbers being safe integers, the call registers the callback under the next
  identifier and sends the base message followed by the duration-class field and
  then the distance-class field, where within each class the maximum takes
  priority over the minimum and a field counts as present when its value is
  truthy. Both classes carry the labels \<^verbatim>\<open>maximumDistance\<close> and \<^verbatim>\<open>minumumDistance\<close>
  of the source. In particular, for the type Pan, the side Top and
  \<^verbatim>\<open>{maximumDuration: 2, minimumDuration: 5, maximumDistance: 3}\<close> the command is
  \<^verbatim>\<open>addGesture@1@1@\<close>, the identifier, \<^verbatim>\<open>@maximumDistance@2@maximumDistance@3@\<close>. The
  command travels in the URL of the request, after the prefix
  \<^verbatim>\<open>fuffr-bridge@\<close>.
\<close>

theorem addGesture_param_encoding:
  "truthy callback \<Longrightarrow> safe_integer (callbackIdCounter s + 1) \<Longrightarrow>
   (safe_value gestureType \<and> safe_value sides \<and> safe_value (JObj ps)
      \<and> to_string gestureType = Inr t \<and> to_string sides = Inr u \<longrightarrow>
    addGesture [gestureType, sides, JObj ps, callback] s =
      (Inr (num_val (callbackIdCounter s + 1)),
       s\<lparr>callbackIdCounter := callbackIdCounter s + 1,
         callbackTable := (callbackTable s)(callbackIdCounter s + 1 \<mapsto> callback),
         effects := effects s @
           [Sent (''fuffr-bridge@'' @ ''addGesture@'' @ t @ ''@'' @ u @ ''@''
                    @ decimal (callbackIdCounter s + 1) @ ''@''
                    @ spec_param_fields has_value (JObj ps))
              undefined_val undefined_val]\<rparr>))
   \<and> effects (snd (addGesture
         [num_val FFRGesturePan, num_val FFRSideTop,
          JObj [(''maximumDuration'', JNum 2), (''minimumDuration'', JNum 5),
                (''maximumDistance'', JNum 3)],
          callback] s))
       = effects s @
          [Sent (''fuffr-bridge@'' @ ''addGesture@1@1@''
                   @ decimal (callbackIdCounter s + 1)
                   @ ''@maximumDistance@2@maximumDistance@3@'')
             undefined_val undefined_val]"
proof -
  assume cb: "truthy callback" and safe: "safe_integer (callbackIdCounter s + 1)"
  have fields:
    "spec_param_fields has_value
       (JObj [(''maximumDuration'', JNum 2), (''minimumDuration'', JNum 5),
              (''maximumDistance'', JNum 3)])
     = ''maximumDistance@2@maximumDistance@3@''"
    by (simp add: spec_param_fields_def spec_class_field_def has_value_def decimal_strings)
  have kinds:
    "to_string (num_val FFRGesturePan) = Inr ''1''" "to_string (num_val FFRSideTop) = Inr ''1''"
    by (simp_all add: FFRGesturePan_def FFRSideTop_def decimal_strings)
  have general: "addGesture [gestureType, sides, JObj ps, callback] s =
      (Inr (num_val (callbackIdCounter s + 1)),
       s\<lparr>callbackIdCounter := callbackIdCounter s + 1,
         callbackTable := (callbackTable s)(callbackIdCounter s + 1 \<mapsto> callback),
         effects := effects s @
           [Sent (''fuffr-bridge@'' @ ''addGesture@'' @ t @ ''@'' @ u @ ''@''
                    @ decimal (callbackIdCounter s + 1) @ ''@''
                    @ spec_param_fields has_value (JObj ps))
              undefined_val undefined_val]\<rparr>)"
    if "to_string gestureType = Inr t" "to_string sides = Inr u"
    by (simp add: addGesture_accepts4 [OF cb that] addParams_spec number_to_string_safe [OF safe])
  have inst: "effects (snd (addGesture
         [num_val FFRGesturePan, num_val FFRSideTop,
          JObj [(''maximumDuration'', JNum 2), (''minimumDuration'', JNum 5),
                (''maximumDistance'', JNum 3)],
          callback] s))
       = effects s @
          [Sent (''fuffr-bridge@'' @ ''addGesture@1@1@''
                   @ decimal (callbackIdCounter s + 1)
                   @ ''@maximumDistance@2@maximumDistance@3@'')
             undefined_val undefined_val]"
    by (simp add: addGesture_accepts4 [OF cb kinds] addParams_spec fields
        number_to_string_safe [OF safe])
  from general inst show ?thesis by blast
qed

text \<open>The same call on the fresh registry with a function as the callback.\<close>

theorem addGesture_param_encoding_witness:
  "truthy (JFun ''cb'') \<and> safe_integer (callbackIdCounter init_state + 1)
   \<and> safe_value (num_val FFRGesturePan) \<and> safe_value (num_val FFRSideTop)
   \<and> safe_value (JObj [(''maximumDuration'', JNum 2), (''minimumDuration'', JNum 5),
                        (''maximumDistance'', JNum 3)])
   \<and> to_string (num_val FFRGesturePan) = Inr ''1'' \<and> to_string (num_val FFRSideTop) = Inr ''1''
   \<and> addGesture
       [num_val FFRGesturePan, num_val FFRSideTop,
        JObj [(''maximumDuration'', JNum 2), (''minimumDuration'', JNum 5),
              (''maximumDistance'', JNum 3)],
        JFun ''cb''] init_state
     = (Inr (num_val 1),
        \<lparr>callbackIdCounter = 1, callbackTable = [1 \<mapsto> JFun ''cb''],
         effects = [Sent ''fuffr-bridge@addGesture@1@1@1@maximumDistance@2@maximumDistance@3@''
                     undefined_val undefined_val]\<rparr>)"
proof -
  have cb: "truthy (JFun ''cb'')" by simp
  have safe: "safe_integer (callbackIdCounter init_state + 1)"
    by (simp add: init_state_def safe_integer_def)
  have one: "decimal 1 = ''1''"
    by (simp add: decimal_def nat_to_string.simps digit_char_def)
  show ?thesis
    using addGesture_param_encoding [OF cb safe, of "num_val FFRGesturePan" "num_val FFRSideTop"
        "[(''maximumDuration'', JNum 2), (''minimumDuration'', JNum 5),
          (''maximumDistance'', JNum 3)]" "''1''" "''1''"] cb safe
    by (simp add: init_state_def FFRGesturePan_def FFRSideTop_def decimal_strings one
        safe_integer_def spec_param_fields_def spec_class_field_def has_value_def)
qed

text \<open>
  A property with a falsy value is read like a property the object does not
  have: removing it from the object changes nothing in what is appended.
\<close>

lemma map_of_without_key:
  "map_of (filter (\<lambda>p. fst p \<noteq> k) ps) k' = (if k' = k then None else map_of ps k')"
  by (induction ps) auto

lemma get_prop_falsy:
  assumes "\<not> prim_truthy v"
  shows "prim_truthy (get_prop (JObj ((k, v) # ps)) k')
           = prim_truthy (get_prop (JObj (filter (\<lambda>p. fst p \<noteq> k) ps)) k')"
    and "prim_truthy (get_prop (JObj ((k, v) # ps)) k') \<Longrightarrow>
           get_prop (JObj ((k, v) # ps)) k' = get_prop (JObj (filter (\<lambda>p. fst p \<noteq> k) ps)) k'"
  using assms by (auto simp: map_of_without_key)

lemma addParams_falsy:
  assumes "\<not> prim_truthy v"
  shows "addParams (JObj ((k, v) # ps)) m = addParams (JObj (filter (\<lambda>p. fst p \<noteq> k) ps)) m"
proof -
  let ?a = "JObj ((k, v) # ps)" and ?b = "JObj (filter (\<lambda>p. fst p \<noteq> k) ps)"
  have "spec_class_field has_value ?a x y = spec_class_field has_value ?b x y" for x y
    using get_prop_falsy [OF assms, of k ps x] get_prop_falsy [OF assms, of k ps y]
    by (simp add: spec_class_field_def has_value_def)
  then have "spec_param_fields has_value ?a = spec_param_fields has_value ?b"
    by (simp add: spec_param_fields_def)
  then show ?thesis
    by (simp add: addParams_spec)
qed

text \<open>
  C10. A parameter whose value is 0, or falsy otherwise, is treated as absent.
  For every function \<open>cb\<close>, every gesture type and sides that convert to strings
  and safe numbers, \<^verbatim>\<open>addGesture\<close> with \<^verbatim>\<open>{maximumDuration: 0, minimumDuration: 5}\<close>
  appends the minimum-duration field \<^verbatim>\<open>minumumDistance@5@\<close> although
  \<^verbatim>\<open>maximumDuration\<close> is a key of the object, and with \<^verbatim>\<open>{maximumDistance: 0}\<close>
  alone appends no field. In general a property with a falsy value can be
  removed from the object without changing the message.
\<close>

theorem falsy_parameter_absent:
  "safe_integer (callbackIdCounter s + 1) \<Longrightarrow> safe_value gestureType \<Longrightarrow> safe_value sides \<Longrightarrow>
   to_string gestureType = Inr t \<Longrightarrow> to_string sides = Inr u \<Longrightarrow>
   effects (snd (addGesture
       [gestureType, sides,
        JObj [(''maximumDuration'', JNum 0), (''minimumDuration'', JNum 5)], JFun cb] s))
     = effects s @
         [Sent (''fuffr-bridge@'' @ ''addGesture@'' @ t @ ''@'' @ u @ ''@''
                  @ decimal (callbackIdCounter s + 1) @ ''@'' @ ''minumumDistance@5@'')
            undefined_val undefined_val]
   \<and> has_key (JObj [(''maximumDuration'', JNum 0), (''minimumDuration'', JNum 5)])
        ''maximumDuration''
   \<and> effects (snd (addGesture
       [gestureType, sides, JObj [(''maximumDistance'', JNum 0)], JFun cb] s))
     = effects s @
         [Sent (''fuffr-bridge@'' @ ''addGesture@'' @ t @ ''@'' @ u @ ''@''
                  @ decimal (callbackIdCounter s + 1) @ ''@'')
            undefined_val undefined_val]
   \<and> (\<not> prim_truthy v \<longrightarrow>
        addParams (JObj ((k, v) # ps)) m = addParams (JObj (filter (\<lambda>p. fst p \<noteq> k) ps)) m)"
proof (intro conjI impI)
  show "\<not> prim_truthy v \<Longrightarrow>
        addParams (JObj ((k, v) # ps)) m = addParams (JObj (filter (\<lambda>p. fst p \<noteq> k) ps)) m"
    by (rule addParams_falsy)
qed (simp_all add: addGesture_accepts4 addParams_spec number_to_string_safe
      spec_param_fields_def spec_class_field_def has_value_def decimal_strings)

text \<open>
  The type Pan and the side Top on the fresh registry, and the general part at
  the object \<^verbatim>\<open>{maximumDuration: 0, minimumDuration: 5}\<close>.
\<close>

theorem falsy_parameter_absent_witness:
  "safe_integer (callbackIdCounter init_state + 1)
   \<and> safe_value (num_val FFRGesturePan) \<and> safe_value (num_val FFRSideTop)
   \<and> to_string (num_val FFRGesturePan) = Inr ''1'' \<and> to_string (num_val FFRSideTop) = Inr ''1''
   \<and> effects (snd (addGesture
        [num_val FFRGesturePan, num_val FFRSideTop,
         JObj [(''maximumDuration'', JNum 0), (''minimumDuration'', JNum 5)], JFun ''cb'']
        init_state))
     = [Sent ''fuffr-bridge@addGesture@1@1@1@minumumDistance@5@'' undefined_val undefined_val]
   \<and> effects (snd (addGesture
        [num_val FFRGesturePan, num_val FFRSideTop, JObj [(''maximumDistance'', JNum 0)],
         JFun ''cb''] init_state))
     = [Sent ''fuffr-bridge@addGesture@1@1@1@'' undefined_val undefined_val]
   \<and> \<not> prim_truthy (JNum 0)
   \<and> addParams (JObj [(''maximumDuration'', JNum 0), (''minimumDuration'', JNum 5)]) ''m@''
       = addParams (JObj [(''minimumDuration'', JNum 5)]) ''m@''"
proof -
  have safe: "safe_integer (callbackIdCounter init_state + 1)"
    by (simp add: init_state_def safe_integer_def)
  have vals: "safe_value (num_val FFRGesturePan)" "safe_value (num_val FFRSideTop)"
    by (simp_all add: FFRGesturePan_def FFRSideTop_def safe_integer_def)
  have strs:
    "to_string (num_val FFRGesturePan) = Inr ''1''" "to_string (num_val FFRSideTop) = Inr ''1''"
    by (simp_all add: FFRGesturePan_def FFRSideTop_def decimal_strings)
  have one: "decimal 1 = ''1''"
    by (simp add: decimal_def nat_to_string.simps digit_char_def)
  show ?thesis
    using falsy_parameter_absent [OF safe vals strs, where cb = "''cb''" and v = "JNum 0"
        and k = "''maximumDuration''" and ps = "[(''minimumDuration'', JNum 5)]" and m = "''m@''"]
      safe vals strs
    by (simp add: init_state_def one)
qed

section \<open>Dispatch: \<^verbatim>\<open>performCallback\<close>\<close>

lemma performCallback_registered:
  "callbackTable s gestureId = Some (JFun h) \<Longrightarrow>
   performCallback gestureId rest s = Inr (s\<lparr>effects := effects s @ [Called h rest]\<rparr>)"
  by (simp add: performCallback_def call_value_def)

lemma performCallback_absent:
  "callbackTable s gestureId = None \<Longrightarrow> performCallback gestureId rest s = Inr s"
  by (simp add: performCallback_def)

lemma performCallback_registry:
  "performCallback gestureId rest s = Inr s' \<Longrightarrow>
   callbackIdCounter s' = callbackIdCounter s \<and> callbackTable s' = callbackTable s"
  by (auto simp: performCallback_def call_value_def Let_def split: if_splits js_val.splits)

text \<open>
  C4. For every identifier registered with a handler \<open>h\<close>, the dispatch with the
  identifier and the arguments \<open>a\<close>, \<open>b\<close> (and with any other list of arguments)
  calls \<open>h\<close> once, with these arguments and without the identifier: exactly one
  call is added to the effects and nothing else changes. For every identifier
  that is not in the table, the dispatch does not raise and returns the state
  as it was.
\<close>

theorem performCallback_dispatch:
  "(callbackTable s gestureId = Some (JFun h) \<longrightarrow>
      performCallback gestureId [a, b] s = Inr (s\<lparr>effects := effects s @ [Called h [a, b]]\<rparr>)
      \<and> performCallback gestureId rest s = Inr (s\<lparr>effects := effects s @ [Called h rest]\<rparr>))
   \<and> (callbackTable s gestureId = None \<longrightarrow> performCallback gestureId rest s = Inr s)"
  by (simp add: performCallback_registered performCallback_absent)

text \<open>A table holding a handler for identifier 1 and none for identifier 2.\<close>

theorem performCallback_dispatch_witness:
  "callbackTable \<lparr>callbackIdCounter = 1, callbackTable = [1 \<mapsto> JFun ''h''], effects = []\<rparr> 1
     = Some (JFun ''h'')
   \<and> performCallback 1 [num_val 2, str_val ''x'']
        \<lparr>callbackIdCounter = 1, callbackTable = [1 \<mapsto> JFun ''h''], effects = []\<rparr>
     = Inr \<lparr>callbackIdCounter = 1, callbackTable = [1 \<mapsto> JFun ''h''],
            effects = [Called ''h'' [num_val 2, str_val ''x'']]\<rparr>
   \<and> callbackTable \<lparr>callbackIdCounter = 1, callbackTable = [1 \<mapsto> JFun ''h''], effects = []\<rparr> 2
     = None
   \<and> performCallback 2 [num_val 2, str_val ''x'']
        \<lparr>callbackIdCounter = 1, callbackTable = [1 \<mapsto> JFun ''h''], effects = []\<rparr>
     = Inr \<lparr>callbackIdCounter = 1, callbackTable = [1 \<mapsto> JFun ''h''], effects = []\<rparr>"
  using performCallback_dispatch
      [of "\<lparr>callbackIdCounter = 1, callbackTable = [1 \<mapsto> JFun ''h''], effects = []\<rparr>" 1 "''h''"
          "num_val 2" "str_val ''x''" "[num_val 2, str_val ''x'']"]
    performCallback_dispatch
      [of "\<lparr>callbackIdCounter = 1, callbackTable = [1 \<mapsto> JFun ''h''], effects = []\<rparr>" 2 "''h''"
          "num_val 2" "str_val ''x''" "[num_val 2, str_val ''x'']"]
  by simp

section \<open>Removing gestures\<close>

text \<open>
  C5. \<^verbatim>\<open>removeAllGestures\<close> sends the one command \<^verbatim>\<open>removeAllGestures@\<close> (in the URL
  of the request, after the prefix of the bridge) and leaves the table and the
  counter as they were: for every identifier registered with a handler before
  the call, a dispatch after the call still calls the handler.
\<close>

theorem removeAllGestures_keeps_registry:
  "callbackTable (removeAllGestures s) = callbackTable s
   \<and> callbackIdCounter (removeAllGestures s) = callbackIdCounter s
   \<and> effects (removeAllGestures s)
       = effects s @ [Sent (''fuffr-bridge@'' @ ''removeAllGestures@'') undefined_val undefined_val]
   \<and> (callbackTable s gestureId = Some (JFun h) \<longrightarrow>
        performCallback gestureId rest (removeAllGestures s)
          = Inr ((removeAllGestures s)
                   \<lparr>effects := effects (removeAllGestures s) @ [Called h rest]\<rparr>))"
  by (simp add: removeAllGestures_def callNative_def performCallback_registered)

text \<open>A registered handler is still called after \<^verbatim>\<open>removeAllGestures\<close>.\<close>

theorem removeAllGestures_keeps_registry_witness:
  "callbackTable \<lparr>callbackIdCounter = 1, callbackTable = [1 \<mapsto> JFun ''h''], effects = []\<rparr> 1
     = Some (JFun ''h'')
   \<and> performCallback 1 [num_val 3]
        (removeAllGestures
           \<lparr>callbackIdCounter = 1, callbackTable = [1 \<mapsto> JFun ''h''], effects = []\<rparr>)
     = Inr \<lparr>callbackIdCounter = 1, callbackTable = [1 \<mapsto> JFun ''h''],
            effects = [Sent ''fuffr-bridge@removeAllGestures@'' undefined_val undefined_val,
                       Called ''h'' [num_val 3]]\<rparr>"
  using removeAllGestures_keeps_registry
      [of "\<lparr>callbackIdCounter = 1, callbackTable = [1 \<mapsto> JFun ''h''], effects = []\<rparr>" 1 "''h''"
          "[num_val 3]"]
  by (simp add: removeAllGestures_def callNative_def)

text \<open>
  C6. For every identifier, a safe integer, \<^verbatim>\<open>removeGesture\<close> first removes the
  identifier from the table, which changes nothing when it is not there, and
  then sends \<^verbatim>\<open>removeGesture@\<close>, the decimal numeral of the identifier, \<^verbatim>\<open>@\<close>,
  whether or not the identifier was registered. The function passes through two
  states: in the first the identifier is out of the table and nothing has been
  sent, in the second, in which it returns, the command has been sent. In the
  state after the call a dispatch for the identifier calls no handler: it
  returns that state unchanged.
\<close>

theorem removeGesture_unregisters_and_sends:
  "safe_integer gestureId \<Longrightarrow>
   removeGesture_steps gestureId s =
     [s\<lparr>callbackTable := (callbackTable s)(gestureId := None)\<rparr>,
      s\<lparr>callbackTable := (callbackTable s)(gestureId := None),
        effects := effects s @
          [Sent (''fuffr-bridge@'' @ ''removeGesture@'' @ decimal gestureId @ ''@'')
             undefined_val undefined_val]\<rparr>]
   \<and> removeGesture gestureId s = last (removeGesture_steps gestureId s)
   \<and> signed_decimal_value (decimal gestureId) = gestureId
   \<and> (callbackTable s gestureId = None \<longrightarrow> hd (removeGesture_steps gestureId s) = s)
   \<and> callbackTable (removeGesture gestureId s) = (callbackTable s)(gestureId := None)
   \<and> callbackIdCounter (removeGesture gestureId s) = callbackIdCounter s
   \<and> effects (removeGesture gestureId s)
       = effects s @
           [Sent (''fuffr-bridge@'' @ ''removeGesture@'' @ decimal gestureId @ ''@'')
              undefined_val undefined_val]
   \<and> performCallback gestureId rest (removeGesture gestureId s) = Inr (removeGesture gestureId s)"
proof -
  assume safe: "safe_integer gestureId"
  have "callbackTable (removeGesture gestureId s) gestureId = None"
    by (simp add: removeGesture_def removeCallback_def callNative_def)
  then have dispatch: "performCallback gestureId rest (removeGesture gestureId s)
               = Inr (removeGesture gestureId s)"
    by (rule performCallback_absent)
  have absent: "hd (removeGesture_steps gestureId s) = s" if "callbackTable s gestureId = None"
  proof -
    from that have "(callbackTable s)(gestureId := None) = callbackTable s" by auto
    then show ?thesis
      by (simp add: removeGesture_steps_def removeCallback_def Let_def)
  qed
  from dispatch absent show ?thesis
    by (simp add: removeGesture_steps_def removeGesture_def removeCallback_def callNative_def
        Let_def number_to_string_safe [OF safe] signed_decimal_value_decimal)
qed

text \<open>
  The removal of the registered identifier 1 and of the identifier 7, which is
  not registered.
\<close>

theorem removeGesture_unregisters_and_sends_witness:
  "safe_integer 1
   \<and> removeGesture_steps 1
        \<lparr>callbackIdCounter = 1, callbackTable = [1 \<mapsto> JFun ''h''], effects = []\<rparr>
     = [\<lparr>callbackIdCounter = 1, callbackTable = Map.empty, effects = []\<rparr>,
        \<lparr>callbackIdCounter = 1, callbackTable = Map.empty,
         effects = [Sent ''fuffr-bridge@removeGesture@1@'' undefined_val undefined_val]\<rparr>]
   \<and> performCallback 1 [num_val 3]
        (removeGesture 1
           \<lparr>callbackIdCounter = 1, callbackTable = [1 \<mapsto> JFun ''h''], effects = []\<rparr>)
     = Inr \<lparr>callbackIdCounter = 1, callbackTable = Map.empty,
            effects = [Sent ''fuffr-bridge@removeGesture@1@'' undefined_val undefined_val]\<rparr>
   \<and> safe_integer 7
   \<and> callbackTable \<lparr>callbackIdCounter = 1, callbackTable = [1 \<mapsto> JFun ''h''], effects = []\<rparr> 7
     = None
   \<and> hd (removeGesture_steps 7
        \<lparr>callbackIdCounter = 1, callbackTable = [1 \<mapsto> JFun ''h''], effects = []\<rparr>)
     = \<lparr>callbackIdCounter = 1, callbackTable = [1 \<mapsto> JFun ''h''], effects = []\<rparr>
   \<and> effects (removeGesture 7
        \<lparr>callbackIdCounter = 1, callbackTable = [1 \<mapsto> JFun ''h''], effects = []\<rparr>)
     = [Sent ''fuffr-bridge@removeGesture@7@'' undefined_val undefined_val]"
proof -
  let ?s = "\<lparr>callbackIdCounter = 1, callbackTable = [1 \<mapsto> JFun ''h''], effects = []\<rparr>"
  have safe: "safe_integer 1" "safe_integer 7" by (simp_all add: safe_integer_def)
  have dec: "decimal 1 = ''1''" "decimal 7 = ''7''"
    by (simp_all add: decimal_def nat_to_string.simps digit_char_def)
  have absent: "callbackTable ?s 7 = None" by simp
  note one = removeGesture_unregisters_and_sends [OF safe(1), of ?s "[num_val 3]"]
  note seven = removeGesture_unregisters_and_sends [OF safe(2), of ?s "[num_val 3]"]
  from one have steps: "removeGesture_steps 1 ?s =
     [\<lparr>callbackIdCounter = 1, callbackTable = Map.empty, effects = []\<rparr>,
      \<lparr>callbackIdCounter = 1, callbackTable = Map.empty,
        effects = [Sent ''fuffr-bridge@removeGesture@1@'' undefined_val undefined_val]\<rparr>]"
    by (simp add: dec)
  from one have "removeGesture 1 ?s = last (removeGesture_steps 1 ?s)" by blast
  with steps have last: "removeGesture 1 ?s =
      \<lparr>callbackIdCounter = 1, callbackTable = Map.empty,
        effects = [Sent ''fuffr-bridge@removeGesture@1@'' undefined_val undefined_val]\<rparr>"
    by simp
  from one have "performCallback 1 [num_val 3] (removeGesture 1 ?s) = Inr (removeGesture 1 ?s)"
    by blast
  with last have dispatch: "performCallback 1 [num_val 3] (removeGesture 1 ?s) =
      Inr \<lparr>callbackIdCounter = 1, callbackTable = Map.empty,
        effects = [Sent ''fuffr-bridge@removeGesture@1@'' undefined_val undefined_val]\<rparr>"
    by simp
  from seven absent have first: "hd (removeGesture_steps 7 ?s) = ?s" by blast
  from seven have "effects (removeGesture 7 ?s)
       = effects ?s @
           [Sent (''fuffr-bridge@'' @ ''removeGesture@'' @ decimal 7 @ ''@'')
              undefined_val undefined_val]"
    by blast
  then have sent: "effects (removeGesture 7 ?s)
       = [Sent ''fuffr-bridge@removeGesture@7@'' undefined_val undefined_val]"
    by (simp add: dec)
  from safe steps dispatch absent first sent show ?thesis by blast
qed

section \<open>Enabling sides\<close>

text \<open>
  The claim that for every number of touches from 0 on the command is
  \<^verbatim>\<open>enableSides@\<close>, the mask, \<^verbatim>\<open>@\<close>, the number, \<^verbatim>\<open>@\<close> in the wire format of the
  specification fails from \<open>10 ^ 21\<close> on: \<^verbatim>\<open>enableSides(15, 1e21)\<close> sends
  \<^verbatim>\<open>enableSides@15@1e+21@\<close>.
\<close>

theorem enableSides_exponent_counterexample:
  "(0::int) \<le> 15 \<and> (15::int) \<le> 15 \<and> (0::int) \<le> 1000000000000000000000
   \<and> enableSides (num_val 15) (num_val 1000000000000000000000) undefined_val undefined_val
        init_state
     = Inr \<lparr>callbackIdCounter = 0, callbackTable = Map.empty,
            effects = [Sent ''fuffr-bridge@enableSides@15@1e+21@'' undefined_val undefined_val]\<rparr>
   \<and> spec_enableSides_command 15 1000000000000000000000
     = ''enableSides@15@1000000000000000000000@''
   \<and> enableSides (num_val 15) (num_val 1000000000000000000000) undefined_val undefined_val
        init_state
     \<noteq> Inr \<lparr>callbackIdCounter = 0, callbackTable = Map.empty,
            effects = [Sent (''fuffr-bridge@'' @ spec_enableSides_command 15 1000000000000000000000)
                         undefined_val undefined_val]\<rparr>"
  by (simp add: enableSides_def callNative_def init_state_def spec_enableSides_command_def
      decimal_strings exponent_strings)

text \<open>
  C7 (amended). For every side mask \<open>sides\<close> from 0 to 15 and every number of
  touches \<open>touchesPerSide\<close> from 0 to below \<open>2 ^ 53\<close>, \<^verbatim>\<open>enableSides\<close> sends exactly
  one request, whose command is \<^verbatim>\<open>enableSides@\<close>, the decimal numeral of \<open>sides\<close>,
  \<^verbatim>\<open>@\<close>, the decimal numeral of \<open>touchesPerSide\<close>, \<^verbatim>\<open>@\<close>, and changes nothing
  else; the numerals read back as the two numbers.
\<close>

theorem enableSides_command:
  "0 \<le> sides \<Longrightarrow> sides \<le> 15 \<Longrightarrow> 0 \<le> touchesPerSide \<Longrightarrow> touchesPerSide < 2 ^ 53 \<Longrightarrow>
   enableSides (num_val sides) (num_val touchesPerSide) win fail s
     = Inr (s\<lparr>effects := effects s @
          [Sent (''fuffr-bridge@'' @ spec_enableSides_command sides touchesPerSide) win fail]\<rparr>)
   \<and> spec_enableSides_command sides touchesPerSide
       = ''enableSides@'' @ decimal sides @ ''@'' @ decimal touchesPerSide @ ''@''
   \<and> int (decimal_value (decimal sides)) = sides
   \<and> int (decimal_value (decimal touchesPerSide)) = touchesPerSide"
proof -
  assume a: "0 \<le> sides" "sides \<le> 15" "0 \<le> touchesPerSide" "touchesPerSide < 2 ^ 53"
  then have safe: "safe_integer sides" "safe_integer touchesPerSide"
    by (simp_all add: safe_integer_def)
  from a have "decimal sides = nat_to_string (nat sides)"
    "decimal touchesPerSide = nat_to_string (nat touchesPerSide)"
    by (simp_all add: decimal_def)
  with a show ?thesis
    by (simp add: enableSides_def callNative_def spec_enableSides_command_def
        number_to_string_safe [OF safe(1)] number_to_string_safe [OF safe(2)]
        decimal_value_nat_to_string)
qed

text \<open>All four sides with two touches each.\<close>

theorem enableSides_command_witness:
  "(0::int) \<le> 15 \<and> (15::int) \<le> 15 \<and> (0::int) \<le> 2 \<and> (2::int) < 2 ^ 53
   \<and> enableSides (num_val 15) (num_val 2) undefined_val undefined_val init_state
     = Inr \<lparr>callbackIdCounter = 0, callbackTable = Map.empty,
            effects = [Sent ''fuffr-bridge@enableSides@15@2@'' undefined_val undefined_val]\<rparr>"
proof -
  have h: "(0::int) \<le> 15" "(15::int) \<le> 15" "(0::int) \<le> 2" "(2::int) < 2 ^ 53" by simp_all
  have dec: "decimal 15 = ''15''" "decimal 2 = ''2''"
    by (simp_all add: decimal_def nat_to_string.simps digit_char_def)
  show ?thesis
    using enableSides_command [OF h, of undefined_val undefined_val init_state]
    by (simp add: init_state_def dec)
qed

section \<open>The response of the bridge\<close>

text \<open>
  C8. \<^verbatim>\<open>callNative\<close> sends the command with the two callbacks attached to the
  request. When the request has completed (ready state 4), the status 200 calls
  the success callback with the response text, and any other status calls the
  failure callback with that status; a callback that was omitted
  (\<^verbatim>\<open>undefined\<close>) is not called, nothing is raised and the state stays as it
  was.
\<close>

theorem callNative_response:
  "effects (callNative command win fail s)
     = effects s @ [Sent (''fuffr-bridge@'' @ command) win fail]
   \<and> (readyState request = 4 \<and> status request = 200 \<longrightarrow>
        onreadystatechange request (JFun w) fail s
          = Inr (s\<lparr>effects := effects s @ [Called w [str_val (responseText request)]]\<rparr>)
        \<and> onreadystatechange request undefined_val fail s = Inr s)
   \<and> (readyState request = 4 \<and> status request \<noteq> 200 \<longrightarrow>
        onreadystatechange request win (JFun f) s
          = Inr (s\<lparr>effects := effects s @ [Called f [num_val (status request)]]\<rparr>)
        \<and> onreadystatechange request win undefined_val s = Inr s)"
  by (simp add: callNative_def onreadystatechange_def call_value_def)

text \<open>A completed request with status 200 and one with status 404.\<close>

theorem callNative_response_witness:
  "readyState \<lparr>readyState = 4, status = 200, responseText = ''ok''\<rparr> = 4
   \<and> status \<lparr>readyState = 4, status = 200, responseText = ''ok''\<rparr> = 200
   \<and> onreadystatechange \<lparr>readyState = 4, status = 200, responseText = ''ok''\<rparr>
        (JFun ''w'') (JFun ''f'') init_state
     = Inr \<lparr>callbackIdCounter = 0, callbackTable = Map.empty,
            effects = [Called ''w'' [str_val ''ok'']]\<rparr>
   \<and> readyState \<lparr>readyState = 4, status = 404, responseText = []\<rparr> = 4
   \<and> status \<lparr>readyState = 4, status = 404, responseText = []\<rparr> \<noteq> 200
   \<and> onreadystatechange \<lparr>readyState = 4, status = 404, responseText = []\<rparr>
        (JFun ''w'') (JFun ''f'') init_state
     = Inr \<lparr>callbackIdCounter = 0, callbackTable = Map.empty,
            effects = [Called ''f'' [num_val 404]]\<rparr>"
  using callNative_response
      [of "''c''" "JFun ''w''" "JFun ''f''" init_state
          "\<lparr>readyState = 4, status = 200, responseText = ''ok''\<rparr>" "''w''" "''f''"]
    callNative_response
      [of "''c''" "JFun ''w''" "JFun ''f''" init_state
          "\<lparr>readyState = 4, status = 404, responseText = []\<rparr>" "''w''" "''f''"]
  by (simp add: init_state_def)

section \<open>A gesture from registration to dispatch\<close>

text \<open>
  C9. On the fresh registry (counter 0, empty table)
  \<^verbatim>\<open>addGesture(FFRGestureTap, FFRSideLeft, cb)\<close> returns the identifier 1 and sends
  exactly the command \<^verbatim>\<open>addGesture@4@4@1@\<close>, both constants being 4; a dispatch
  with the identifier 1 and no further argument then calls \<open>cb\<close> with no
  argument.
\<close>

theorem tap_left_scenario:
  "addGesture [num_val FFRGestureTap, num_val FFRSideLeft, JFun cb] init_state
     = (Inr (num_val 1),
        \<lparr>callbackIdCounter = 1, callbackTable = [1 \<mapsto> JFun cb],
         effects = [Sent (''fuffr-bridge@'' @ ''addGesture@4@4@1@'') undefined_val undefined_val]\<rparr>)
   \<and> FFRGestureTap = 4 \<and> FFRSideLeft = 4
   \<and> performCallback 1 []
        \<lparr>callbackIdCounter = 1, callbackTable = [1 \<mapsto> JFun cb],
         effects = [Sent (''fuffr-bridge@'' @ ''addGesture@4@4@1@'') undefined_val undefined_val]\<rparr>
     = Inr \<lparr>callbackIdCounter = 1, callbackTable = [1 \<mapsto> JFun cb],
            effects = [Sent (''fuffr-bridge@'' @ ''addGesture@4@4@1@'') undefined_val undefined_val,
                       Called cb []]\<rparr>"
  by (simp add: addGesture_def arg_at_def callNative_def addParams_def init_state_def
      FFRGestureTap_def FFRSideLeft_def decimal_strings performCallback_registered)

section \<open>Identifiers\<close>

text \<open>
  \<^verbatim>\<open>addGesture\<close> either rejects the call, or registers under the next identifier
  and returns it, or registers under the next identifier and raises.
\<close>

lemma addGesture_cases:
  "addGesture args s = (Inr undefined_val, s)
   \<or> (\<exists>callback e.
         addGesture args s =
           (Inr (num_val (callbackIdCounter s + 1)),
            s\<lparr>callbackIdCounter := callbackIdCounter s + 1,
              callbackTable := (callbackTable s)(callbackIdCounter s + 1 \<mapsto> callback),
              effects := effects s @ [e]\<rparr>))
   \<or> (\<exists>callback.
         addGesture args s =
           (Inl TypeError,
            s\<lparr>callbackIdCounter := callbackIdCounter s + 1,
              callbackTable := (callbackTable s)(callbackIdCounter s + 1 \<mapsto> callback)\<rparr>))"
proof -
  define callback where
    "callback = (if length args = 4 then arg_at args 3
                 else if length args = 3 then arg_at args 2 else null_val)"
  show ?thesis
  proof (cases "\<not> truthy callback \<and> js_typeof callback \<noteq> ''function''")
    case True
    then show ?thesis
      by (simp add: addGesture_def Let_def callback_def)
  next
    case accepted: False
    show ?thesis
    proof (cases "to_string (arg_at args 0)")
      case (Inl e)
      with accepted have "addGesture args s =
           (Inl TypeError,
            s\<lparr>callbackIdCounter := callbackIdCounter s + 1,
              callbackTable := (callbackTable s)(callbackIdCounter s + 1 \<mapsto> callback)\<rparr>)"
        unfolding addGesture_def Let_def callback_def by (auto intro: one_error)
      then show ?thesis by blast
    next
      case t: (Inr t)
      show ?thesis
      proof (cases "to_string (arg_at args 1)")
        case (Inl e)
        with accepted t have "addGesture args s =
           (Inl TypeError,
            s\<lparr>callbackIdCounter := callbackIdCounter s + 1,
              callbackTable := (callbackTable s)(callbackIdCounter s + 1 \<mapsto> callback)\<rparr>)"
          unfolding addGesture_def Let_def callback_def by (auto intro: one_error)
        then show ?thesis by blast
      next
        case (Inr u)
        with accepted t have "addGesture args s =
           (Inr (num_val (callbackIdCounter s + 1)),
            s\<lparr>callbackIdCounter := callbackIdCounter s + 1,
              callbackTable := (callbackTable s)(callbackIdCounter s + 1 \<mapsto> callback),
              effects := effects s @
                [Sent (''fuffr-bridge@'' @
                       addParams (if length args = 4 then arg_at args 2 else null_val)
                         (''addGesture@'' @ t @ ''@'' @ u @ ''@''
                            @ number_to_string (callbackIdCounter s + 1) @ ''@''))
                   undefined_val undefined_val]\<rparr>)"
          unfolding addGesture_def Let_def callback_def callNative_def by auto
        then show ?thesis by blast
      qed
    qed
  qed
qed

lemma addGesture_raises_any_state:
  "isl (fst (addGesture args s)) = isl (fst (addGesture args s'))"
  by (simp add: addGesture_def Let_def split: sum.splits)

lemma raises_after_registering_AddGesture:
  "raises_after_registering (AddGesture args) = isl (fst (addGesture args s))"
  using addGesture_raises_any_state [of args init_state s]
  by (simp add: raises_after_registering_def)

text \<open>
  One call: what it returns and what it does to the counter. Only an
  \<^verbatim>\<open>addGesture\<close> that raises advances the counter without returning the
  identifier.
\<close>

lemma exec_counter:
  "exec c s = (r, s') \<Longrightarrow>
   (r = None \<and> callbackIdCounter s' = callbackIdCounter s)
   \<or> (r = Some (callbackIdCounter s + 1) \<and> callbackIdCounter s' = callbackIdCounter s + 1)
   \<or> (r = None \<and> callbackIdCounter s' = callbackIdCounter s + 1 \<and> raises_after_registering c)"
proof (cases c)
  case (AddGesture args)
  assume "exec c s = (r, s')"
  with AddGesture addGesture_cases [of args s] raises_after_registering_AddGesture [of args s]
  show ?thesis by auto
next
  case (PerformCallback i rest)
  assume "exec c s = (r, s')"
  with PerformCallback show ?thesis
    by (auto split: sum.splits dest: performCallback_registry)
qed (auto simp: enableSides_def log_def updateFirmware_def removeGesture_def
       removeAllGestures_def addCallback_def removeCallback_def callNative_def Let_def
       split: sum.splits)

lemma exec_table:
  assumes "exec c s = (r, s')" and "issued_only s"
  shows "issued_only s'"
    and "k \<le> callbackIdCounter s \<Longrightarrow>
           callbackTable s' k = callbackTable s k \<or> callbackTable s' k = None"
proof -
  have "issued_only s' \<and>
        (k \<le> callbackIdCounter s \<longrightarrow>
           callbackTable s' k = callbackTable s k \<or> callbackTable s' k = None)"
  proof (cases c)
    case (AddGesture args)
    with assms addGesture_cases [of args s] show ?thesis
      by (auto simp: issued_only_def split: if_splits) force+
  next
    case (PerformCallback i rest)
    with assms show ?thesis
      by (auto simp: issued_only_def split: sum.splits dest!: performCallback_registry)
  next
    case (AddCallback f)
    with assms show ?thesis
      by (auto simp: issued_only_def addCallback_def Let_def split: if_splits) force+
  qed (use assms in \<open>auto simp: issued_only_def enableSides_def log_def updateFirmware_def
         removeGesture_def removeAllGestures_def removeCallback_def callNative_def
         split: if_splits sum.splits\<close>)
  then show "issued_only s'"
    and "k \<le> callbackIdCounter s \<Longrightarrow>
           callbackTable s' k = callbackTable s k \<or> callbackTable s' k = None"
    by simp_all
qed

lemma run_ids:
  "run cs s = (ids, s') \<Longrightarrow>
   callbackIdCounter s \<le> callbackIdCounter s'
   \<and> sorted_wrt (<) ids
   \<and> set ids \<subseteq> {callbackIdCounter s + 1 .. callbackIdCounter s'}
   \<and> (list_all (\<lambda>c. \<not> raises_after_registering c) cs \<longrightarrow> ids = [callbackIdCounter s + 1 .. callbackIdCounter s'])"
proof (induction cs arbitrary: s ids s')
  case Nil
  then show ?case by simp
next
  case (Cons c cs)
  obtain r s1 where e: "exec c s = (r, s1)" by (cases "exec c s")
  obtain ids1 s2 where r: "run cs s1 = (ids1, s2)" by (cases "run cs s1")
  from Cons.IH [OF r]
  have ih: "callbackIdCounter s1 \<le> callbackIdCounter s2" "sorted_wrt (<) ids1"
    "set ids1 \<subseteq> {callbackIdCounter s1 + 1 .. callbackIdCounter s2}"
    "list_all (\<lambda>c. \<not> raises_after_registering c) cs \<longrightarrow> ids1 = [callbackIdCounter s1 + 1 .. callbackIdCounter s2]"
    by simp_all
  from Cons.prems e r
  have res: "ids = (case r of Some i \<Rightarrow> i # ids1 | None \<Rightarrow> ids1)" "s' = s2" by simp_all
  from exec_counter [OF e] consider
    (same) "r = None" "callbackIdCounter s1 = callbackIdCounter s"
    | (issued) "r = Some (callbackIdCounter s + 1)" "callbackIdCounter s1 = callbackIdCounter s + 1"
    | (raised) "r = None" "callbackIdCounter s1 = callbackIdCounter s + 1" "raises_after_registering c"
    by blast
  then show ?case
  proof cases
    case same
    with ih res show ?thesis by simp
  next
    case issued
    with ih have le: "callbackIdCounter s + 1 \<le> callbackIdCounter s2" by simp
    then have up: "[callbackIdCounter s + 1 .. callbackIdCounter s2]
                 = (callbackIdCounter s + 1) # [callbackIdCounter s + 1 + 1 .. callbackIdCounter s2]"
      by (rule upto_rec1)
    from issued ih(3) have above: "\<forall>j \<in> set ids1. callbackIdCounter s + 1 < j" by auto
    from issued ih res le up above show ?thesis by auto
  next
    case raised
    with ih res show ?thesis by auto
  qed
qed

lemma run_table:
  "run cs s = (ids, s') \<Longrightarrow> issued_only s \<Longrightarrow>
   issued_only s' \<and>
   (k \<le> callbackIdCounter s \<longrightarrow>
      callbackTable s' k = callbackTable s k \<or> callbackTable s' k = None)"
proof (induction cs arbitrary: s ids s')
  case Nil
  then show ?case by simp
next
  case (Cons c cs)
  obtain r s1 where e: "exec c s = (r, s1)" by (cases "exec c s")
  obtain ids1 s2 where r: "run cs s1 = (ids1, s2)" by (cases "run cs s1")
  from Cons.prems e r have s': "s' = s2" by simp
  have inv1: "issued_only s1" using exec_table(1) [OF e Cons.prems(2)] .
  have le: "callbackIdCounter s \<le> callbackIdCounter s1" using exec_counter [OF e] by auto
  from Cons.IH [OF r inv1]
  have ih: "issued_only s2"
    "k \<le> callbackIdCounter s1 \<longrightarrow>
       callbackTable s2 k = callbackTable s1 k \<or> callbackTable s2 k = None" by simp_all
  show ?case
  proof (intro conjI impI)
    show "issued_only s'" using ih(1) s' by simp
  next
    assume k: "k \<le> callbackIdCounter s"
    from exec_table(2) [OF e Cons.prems(2) k]
    have "callbackTable s1 k = callbackTable s k \<or> callbackTable s1 k = None" .
    moreover from k le ih(2)
    have "callbackTable s2 k = callbackTable s1 k \<or> callbackTable s2 k = None" by simp
    ultimately show "callbackTable s' k = callbackTable s k \<or> callbackTable s' k = None"
      using s' by auto
  qed
qed

text \<open>
  An identifier that has been issued and is removed stays out of the table,
  whatever calls follow.
\<close>

lemma removed_stays_removed:
  assumes "issued_only s" and "k \<le> callbackIdCounter s"
  shows "callbackTable (snd (run cs (removeGesture k s))) k = None"
proof -
  have e: "exec (RemoveGesture k) s = (None, removeGesture k s)" by simp
  have inv: "issued_only (removeGesture k s)" using exec_table(1) [OF e assms(1)] .
  have none: "callbackTable (removeGesture k s) k = None"
    by (simp add: removeGesture_def removeCallback_def callNative_def)
  have le: "k \<le> callbackIdCounter (removeGesture k s)"
    using assms(2) by (simp add: removeGesture_def removeCallback_def callNative_def)
  obtain ids s' where r: "run cs (removeGesture k s) = (ids, s')"
    by (cases "run cs (removeGesture k s)")
  from run_table [OF r inv, of k] le none show ?thesis by (simp add: r)
qed

lemma issued_only_init: "issued_only init_state"
  by (simp add: issued_only_def init_state_def)

text \<open>
  A call of \<^verbatim>\<open>addGesture\<close> whose gesture type is \<^verbatim>\<open>{toString: 5}\<close> raises with the
  identifier 1 consumed; the next registration returns 2.
\<close>

lemma raise_consumes_identifier:
  "addGesture [JObj [(''toString'', JNum 5)], num_val 1, JFun ''cb''] init_state
     = (Inl TypeError,
        \<lparr>callbackIdCounter = 1, callbackTable = [1 \<mapsto> JFun ''cb''], effects = []\<rparr>)"
  "raises_after_registering (AddGesture [JObj [(''toString'', JNum 5)], num_val 1, JFun ''cb''])"
  "fst (run [AddGesture [JObj [(''toString'', JNum 5)], num_val 1, JFun ''cb''],
             AddCallback (JFun ''cb'')] init_state) = [2]"
  by (simp_all add: raises_after_registering_def addGesture_def arg_at_def addCallback_def init_state_def)

text \<open>
  C3. Whatever calls are made on the fresh registry, removals included, the
  identifiers returned by \<^verbatim>\<open>addGesture\<close> and \<^verbatim>\<open>addCallback\<close> are strictly increasing and
  lie between 1 and the counter. When no call of \<^verbatim>\<open>addGesture\<close> raises while it
  builds its message, they are 1, 2, 3 and so on up to the counter, and the
  identifiers returned by later calls continue from the counter. The table is a
  map, so it holds at most one handler for an identifier, and an identifier is
  never given to another handler: whatever calls follow, an entry of the table
  is either still the handler it was or has been removed.
\<close>

theorem identifiers_increase_and_stay:
  "sorted_wrt (<) (fst (run cs init_state))
   \<and> set (fst (run cs init_state)) \<subseteq> {1 .. callbackIdCounter (snd (run cs init_state))}
   \<and> (list_all (\<lambda>c. \<not> raises_after_registering c) cs \<longrightarrow>
        fst (run cs init_state) = [1 .. callbackIdCounter (snd (run cs init_state))])
   \<and> (list_all (\<lambda>c. \<not> raises_after_registering c) cs' \<longrightarrow>
        fst (run cs' (snd (run cs init_state)))
          = [callbackIdCounter (snd (run cs init_state)) + 1
               .. callbackIdCounter (snd (run cs' (snd (run cs init_state))))])
   \<and> (callbackTable (snd (run cs init_state)) k = Some h \<longrightarrow>
        callbackTable (snd (run cs' (snd (run cs init_state)))) k = Some h
        \<or> callbackTable (snd (run cs' (snd (run cs init_state)))) k = None)"
proof -
  obtain ids s1 where r1: "run cs init_state = (ids, s1)" by (cases "run cs init_state")
  obtain ids' s2 where r2: "run cs' s1 = (ids', s2)" by (cases "run cs' s1")
  from run_ids [OF r1]
  have ids: "sorted_wrt (<) ids" "set ids \<subseteq> {1 .. callbackIdCounter s1}"
    "list_all (\<lambda>c. \<not> raises_after_registering c) cs \<longrightarrow> ids = [1 .. callbackIdCounter s1]"
    by (simp_all add: init_state_def)
  from run_ids [OF r2]
  have ids': "list_all (\<lambda>c. \<not> raises_after_registering c) cs' \<longrightarrow>
                ids' = [callbackIdCounter s1 + 1 .. callbackIdCounter s2]"
    by simp
  from run_table [OF r1 issued_only_init] have inv: "issued_only s1" by simp
  have keep: "callbackTable s2 k = Some h \<or> callbackTable s2 k = None"
    if "callbackTable s1 k = Some h"
  proof -
    from inv that have "k \<le> callbackIdCounter s1" by (auto simp: issued_only_def)
    with run_table [OF r2 inv, of k] that show ?thesis by auto
  qed
  from ids ids' keep show ?thesis by (simp add: r1 r2)
qed

text \<open>
  Two registrations with a removal between them, then a removal and a third
  registration: the identifiers are 1, 2 and then 3, and identifier 2 keeps its
  handler.
\<close>

theorem identifiers_increase_and_stay_witness:
  "list_all (\<lambda>c. \<not> raises_after_registering c)
     [AddGesture [num_val 4, num_val 4, JFun ''a''], RemoveGesture 1, AddCallback (JFun ''b'')]
   \<and> fst (run [AddGesture [num_val 4, num_val 4, JFun ''a''], RemoveGesture 1,
               AddCallback (JFun ''b'')] init_state) = [1, 2]
   \<and> callbackTable
        (snd (run [AddGesture [num_val 4, num_val 4, JFun ''a''], RemoveGesture 1,
                   AddCallback (JFun ''b'')] init_state)) 2 = Some (JFun ''b'')
   \<and> list_all (\<lambda>c. \<not> raises_after_registering c)
        [RemoveCallback 1, AddGesture [num_val 1, num_val 1, JFun ''c'']]
   \<and> fst (run [RemoveCallback 1, AddGesture [num_val 1, num_val 1, JFun ''c'']]
            (snd (run [AddGesture [num_val 4, num_val 4, JFun ''a''], RemoveGesture 1,
                       AddCallback (JFun ''b'')] init_state))) = [3]
   \<and> callbackTable
        (snd (run [RemoveCallback 1, AddGesture [num_val 1, num_val 1, JFun ''c'']]
                (snd (run [AddGesture [num_val 4, num_val 4, JFun ''a''], RemoveGesture 1,
                           AddCallback (JFun ''b'')] init_state)))) 2 = Some (JFun ''b'')"
proof -
  let ?cs = "[AddGesture [num_val 4, num_val 4, JFun ''a''], RemoveGesture 1,
              AddCallback (JFun ''b'')]"
  let ?cs' = "[RemoveCallback 1, AddGesture [num_val 1, num_val 1, JFun ''c'']]"
  have quiet: "list_all (\<lambda>c. \<not> raises_after_registering c) ?cs" "list_all (\<lambda>c. \<not> raises_after_registering c) ?cs'"
    by (simp_all add: raises_after_registering_def addGesture_def arg_at_def Let_def)
  have first: "run ?cs init_state =
      ([1, 2],
       \<lparr>callbackIdCounter = 2, callbackTable = [2 \<mapsto> JFun ''b''],
        effects = [Sent ''fuffr-bridge@addGesture@4@4@1@'' undefined_val undefined_val,
                   Sent ''fuffr-bridge@removeGesture@1@'' undefined_val undefined_val]\<rparr>)"
    by (simp add: addGesture_def arg_at_def addParams_def removeGesture_def removeCallback_def
        addCallback_def callNative_def init_state_def decimal_strings)
  have entry: "callbackTable (snd (run ?cs init_state)) 2 = Some (JFun ''b'')"
    unfolding first by simp
  note main = identifiers_increase_and_stay [of ?cs ?cs' 2 "JFun ''b''"]
  have ids: "fst (run ?cs init_state)
      = [1 .. callbackIdCounter (snd (run ?cs init_state))]"
    using main [THEN conjunct2, THEN conjunct2, THEN conjunct1] quiet(1) by (rule mp)
  have ids': "fst (run ?cs' (snd (run ?cs init_state)))
      = [callbackIdCounter (snd (run ?cs init_state)) + 1
           .. callbackIdCounter (snd (run ?cs' (snd (run ?cs init_state))))]"
    using main [THEN conjunct2, THEN conjunct2, THEN conjunct2, THEN conjunct1] quiet(2)
    by (rule mp)
  have kept: "callbackTable (snd (run ?cs' (snd (run ?cs init_state)))) 2
        = Some (JFun ''b'')
      \<or> callbackTable (snd (run ?cs' (snd (run ?cs init_state)))) 2 = None"
    using main [THEN conjunct2, THEN conjunct2, THEN conjunct2, THEN conjunct2] entry
    by (rule mp)
  have second: "run ?cs' (snd (run ?cs init_state)) =
      ([3],
       \<lparr>callbackIdCounter = 3, callbackTable = [2 \<mapsto> JFun ''b'', 3 \<mapsto> JFun ''c''],
        effects = [Sent ''fuffr-bridge@addGesture@4@4@1@'' undefined_val undefined_val,
                   Sent ''fuffr-bridge@removeGesture@1@'' undefined_val undefined_val,
                   Sent ''fuffr-bridge@addGesture@1@1@3@'' undefined_val undefined_val]\<rparr>)"
    unfolding first
    by (simp add: addGesture_def arg_at_def addParams_def removeCallback_def
        callNative_def decimal_strings)
  from kept have kept': "callbackTable (snd (run ?cs' (snd (run ?cs init_state)))) 2
        = Some (JFun ''b'')"
    unfolding second by simp
  from ids have ids12: "fst (run ?cs init_state) = [1, 2]" unfolding first by simp
  from ids' have ids3: "fst (run ?cs' (snd (run ?cs init_state))) = [3]"
    unfolding second by simp
  from quiet ids12 entry ids3 kept' show ?thesis by (intro conjI)
qed

end
